theory Spec2Isabelle
  imports Complex_Main
begin

section \<open>Python values and errors\<close>

text \<open>
  The scripts are Python: integers are unbounded (\<open>int\<close>), \<open>//\<close> and \<open>%\<close> are floor
  division and the remainder with the sign of the divisor (as \<open>div\<close> and \<open>mod\<close> on
  \<open>int\<close> are), and a zero divisor raises. Every exception a modelled statement can
  raise is a value of \<open>py_error\<close>; a computation that can raise returns
  \<open>py_error + 'a\<close>, with \<open>Inl\<close> for the exception.
\<close>

datatype py_error = ZeroDivisionError | ImportError | IndexError | StopIteration

definition py_floordiv :: "int \<Rightarrow> int \<Rightarrow> py_error + int" where
  "py_floordiv a b = (if b = 0 then Inl ZeroDivisionError else Inr (a div b))"

definition py_mod :: "int \<Rightarrow> int \<Rightarrow> py_error + int" where
  "py_mod a b = (if b = 0 then Inl ZeroDivisionError else Inr (a mod b))"

section \<open>Keras demo: dataset length adjustment\<close>

text \<open>
  \<^verbatim>\<open>tutorials/tensorflow2/keras/demo_code_only.py\<close>, line 26 and lines 87-88:
  \<^verbatim>\<open>
  batch_size = 64

  def make_divisible(number, divisor):
      return number - number % divisor
  \<close>
\<close>

definition keras_batch_size :: int where
  "keras_batch_size = 64"

definition make_divisible :: "int \<Rightarrow> int \<Rightarrow> py_error + int" where
  "make_divisible number divisor =
     (case py_mod number divisor of
        Inl e \<Rightarrow> Inl e
      | Inr r \<Rightarrow> Inr (number - r))"

text \<open>
  The replication section (lines 154-171) and the pipelining section (lines 196-217)
  adjust the training and the test length with the same three statements; for the
  training data of the replication section they read
  \<^verbatim>\<open>
  train_steps_per_execution = train_data_len // (batch_size * num_replicas)
  train_steps_per_execution = make_divisible(train_steps_per_execution, num_replicas)
  train_data_len = make_divisible(train_data_len, train_steps_per_execution * batch_size)
  \<close>
  and the pipelining section passes \<open>total_gradient_accumulation_steps\<close> as the divisor
  of the second statement. \<open>steps_per_execution\<close> is the first two statements,
  \<open>adjust_data_len\<close> all three; it returns the steps-per-execution value the section
  later hands to \<open>model.compile\<close> together with the adjusted length.
\<close>

definition steps_per_execution :: "int \<Rightarrow> int \<Rightarrow> int \<Rightarrow> py_error + int" where
  "steps_per_execution num_replicas steps_divisor data_len =
     (case py_floordiv data_len (keras_batch_size * num_replicas) of
        Inl e \<Rightarrow> Inl e
      | Inr steps \<Rightarrow> make_divisible steps steps_divisor)"

definition adjust_data_len :: "int \<Rightarrow> int \<Rightarrow> int \<Rightarrow> py_error + (int \<times> int)" where
  "adjust_data_len num_replicas steps_divisor data_len =
     (case steps_per_execution num_replicas steps_divisor data_len of
        Inl e \<Rightarrow> Inl e
      | Inr steps \<Rightarrow>
          (case make_divisible data_len (steps * keras_batch_size) of
             Inl e \<Rightarrow> Inl e
           | Inr data_len' \<Rightarrow> Inr (steps, data_len')))"

text \<open>Line 154: \<^verbatim>\<open>num_ipus = num_replicas = 2\<close>.\<close>

definition replication_num_replicas :: int where
  "replication_num_replicas = 2"

definition replication_steps :: "int \<Rightarrow> py_error + int" where
  "replication_steps data_len =
     steps_per_execution replication_num_replicas replication_num_replicas data_len"

definition replication_adjust :: "int \<Rightarrow> py_error + (int \<times> int)" where
  "replication_adjust data_len =
     adjust_data_len replication_num_replicas replication_num_replicas data_len"

text \<open>
  Lines 196-202:
  \<^verbatim>\<open>
  num_ipus = 2
  num_replicas = num_ipus // 2
  gradient_accumulation_steps_per_replica = 8
  total_gradient_accumulation_steps = gradient_accumulation_steps_per_replica * num_replicas
  \<close>
\<close>

definition pipelining_num_ipus :: int where
  "pipelining_num_ipus = 2"

definition pipelining_num_replicas :: int where
  "pipelining_num_replicas = pipelining_num_ipus div 2"

definition gradient_accumulation_steps_per_replica :: int where
  "gradient_accumulation_steps_per_replica = 8"

definition total_gradient_accumulation_steps :: int where
  "total_gradient_accumulation_steps =
     gradient_accumulation_steps_per_replica * pipelining_num_replicas"

definition pipelining_steps :: "int \<Rightarrow> py_error + int" where
  "pipelining_steps data_len =
     steps_per_execution pipelining_num_replicas total_gradient_accumulation_steps data_len"

definition pipelining_adjust :: "int \<Rightarrow> py_error + (int \<times> int)" where
  "pipelining_adjust data_len =
     adjust_data_len pipelining_num_replicas total_gradient_accumulation_steps data_len"

section \<open>PopTorch MNIST script: hyperparameters from the command line\<close>

text \<open>
  \<^verbatim>\<open>simple_applications/pytorch/mnist/mnist_poptorch_code_only.py\<close>, lines 17-24. The
  parser has five optional flags, each with a type and a default. \<open>cli_flags\<close> holds
  the converted value given on each flag (\<open>None\<close> when the flag is absent);
  \<open>parse_args\<close> returns the namespace \<open>opts\<close>, with the default where no value was
  given. The learning rate is a Python float; it is only passed on, never computed
  with, and is modelled as a real.
\<close>

record cli_flags =
  flag_batch_size :: "int option"
  flag_device_iterations :: "int option"
  flag_test_batch_size :: "int option"
  flag_epochs :: "int option"
  flag_lr :: "real option"

record namespace =
  opts_batch_size :: int
  opts_device_iterations :: int
  opts_test_batch_size :: int
  opts_epochs :: int
  opts_lr :: real

definition parse_args :: "cli_flags \<Rightarrow> namespace" where
  "parse_args flags =
     \<lparr>opts_batch_size = (case flag_batch_size flags of None \<Rightarrow> 8 | Some v \<Rightarrow> v),
      opts_device_iterations = (case flag_device_iterations flags of None \<Rightarrow> 50 | Some v \<Rightarrow> v),
      opts_test_batch_size = (case flag_test_batch_size flags of None \<Rightarrow> 80 | Some v \<Rightarrow> v),
      opts_epochs = (case flag_epochs flags of None \<Rightarrow> 10 | Some v \<Rightarrow> v),
      opts_lr = (case flag_lr flags of None \<Rightarrow> 5 / 100 | Some v \<Rightarrow> v)\<rparr>"

text \<open>
  Lines 26-32 assign the script's variables (the literals of lines 9-15 are overwritten
  here and never read):
  \<^verbatim>\<open>
  learning_rate = opts.lr
  epochs = opts.epochs
  batch_size = opts.batch_size
  test_batch_size = opts.test_batch_size
  device_iterations = opts.device_iterations

  device_iterations = 50
  \<close>
  The record is the variables after line 30, the update is line 32.
\<close>

record hyperparameters =
  learning_rate :: real
  epochs :: int
  batch_size :: int
  test_batch_size :: int
  device_iterations :: int

definition mnist_hyperparameters :: "namespace \<Rightarrow> hyperparameters" where
  "mnist_hyperparameters opts =
     \<lparr>learning_rate = opts_lr opts,
      epochs = opts_epochs opts,
      batch_size = opts_batch_size opts,
      test_batch_size = opts_test_batch_size opts,
      device_iterations = opts_device_iterations opts\<rparr>
     \<lparr>device_iterations := 50\<rparr>"

text \<open>
  The runtime's option object, as far as the script sets it: \<open>poptorch.Options()\<close>
  starts with one device iteration and the default output mode;
  \<open>deviceIterations\<close> and \<open>outputMode\<close> set a field and return the object.
\<close>

datatype output_mode = OutputDefault | OutputAll

record poptorch_options =
  opt_device_iterations :: int
  opt_output_mode :: output_mode

definition Options :: poptorch_options where
  "Options = \<lparr>opt_device_iterations = 1, opt_output_mode = OutputDefault\<rparr>"

definition deviceIterations :: "int \<Rightarrow> poptorch_options \<Rightarrow> poptorch_options" where
  "deviceIterations n opts = opts\<lparr>opt_device_iterations := n\<rparr>"

definition outputMode :: "output_mode \<Rightarrow> poptorch_options \<Rightarrow> poptorch_options" where
  "outputMode m opts = opts\<lparr>opt_output_mode := m\<rparr>"

text \<open>
  Lines 57-74 build the two data loaders, lines 133-143 the training options and the
  training model with its SGD optimizer, line 149 runs \<open>epochs\<close> epochs. The datasets,
  the network and the optimizer are the frameworks'; the record keeps what the script
  passes to them.
\<close>

record data_loader =
  dl_options :: poptorch_options
  dl_batch_size :: int
  dl_shuffle :: bool
  dl_drop_last :: bool

record training_setup =
  training_loader :: data_loader
  test_loader :: data_loader
  training_opts :: poptorch_options
  sgd_lr :: real
  nr_epochs :: int

definition mnist_setup :: "hyperparameters \<Rightarrow> training_setup" where
  "mnist_setup h =
     \<lparr>training_loader =
        \<lparr>dl_options = deviceIterations (device_iterations h) Options,
         dl_batch_size = batch_size h, dl_shuffle = True, dl_drop_last = True\<rparr>,
      test_loader =
        \<lparr>dl_options = Options,
         dl_batch_size = test_batch_size h, dl_shuffle = True, dl_drop_last = True\<rparr>,
      training_opts = outputMode OutputAll (deviceIterations (device_iterations h) Options),
      sgd_lr = learning_rate h,
      nr_epochs = epochs h\<rparr>"

definition mnist_main :: "cli_flags \<Rightarrow> training_setup" where
  "mnist_main flags = mnist_setup (mnist_hyperparameters (parse_args flags))"

definition no_flags :: cli_flags where
  "no_flags =
     \<lparr>flag_batch_size = None, flag_device_iterations = None, flag_test_batch_size = None,
      flag_epochs = None, flag_lr = None\<rparr>"

section \<open>PopTorch MNIST script: the training wrapper\<close>

text \<open>
  Lines 115-127:
  \<^verbatim>\<open>
  class TrainingModelWithLoss(torch.nn.Module):
      def __init__(self, model):
          super().__init__()
          self.model = model
          self.loss = torch.nn.CrossEntropyLoss()

      def forward(self, args, labels=None):
          output = self.model(args)
          if labels is None:
              return output
          else:
              loss = self.loss(output, labels)
              return output, loss
  \<close>
  The wrapped model is a function from inputs to outputs, the framework's
  \<open>CrossEntropyLoss\<close> a function \<open>cross_entropy\<close> from an output and labels to a loss.
  \<open>forward\<close> returns either the output alone or the pair of output and loss.
\<close>

record ('x, 'o, 'y, 'l) training_model_with_loss =
  model :: "'x \<Rightarrow> 'o"
  loss :: "'o \<Rightarrow> 'y \<Rightarrow> 'l"

datatype ('o, 'l) forward_result = Output 'o | OutputAndLoss 'o 'l

definition TrainingModelWithLoss ::
  "('o \<Rightarrow> 'y \<Rightarrow> 'l) \<Rightarrow> ('x \<Rightarrow> 'o) \<Rightarrow> ('x, 'o, 'y, 'l) training_model_with_loss" where
  "TrainingModelWithLoss cross_entropy m = \<lparr>model = m, loss = cross_entropy\<rparr>"

definition forward ::
  "('x, 'o, 'y, 'l) training_model_with_loss \<Rightarrow> 'x \<Rightarrow> 'y option \<Rightarrow> ('o, 'l) forward_result" where
  "forward self args labels =
     (let output = model self args in
      case labels of
        None \<Rightarrow> Output output
      | Some l \<Rightarrow> OutputAndLoss output (loss self output l))"

section \<open>Reported accuracies\<close>

text \<open>
  Python floats are modelled as reals, and every float operation rounds its exact result
  with a function \<open>rnd\<close>, a parameter of the model (the identity gives exact real
  arithmetic).

  PopTorch MNIST script, lines 165-172:
  \<^verbatim>\<open>
  nr_steps = len(test_data)
  sum_acc = 0.0
  with tqdm(test_data, total=nr_steps, leave=False) as bar:
      for data, labels in bar:
          output = inference_model(data)
          sum_acc += accuracy(output, labels)

  print("Accuracy on test set: {:0.2f}%".format(sum_acc / len(test_data)))
  \<close>
  The test loader is the list of its batches, so \<open>len(test_data)\<close> is the length of the
  list; \<open>batch_accuracy\<close> is \<open>accuracy(inference_model(data), labels)\<close> for one batch.
  A float division by zero raises.
\<close>

fun sum_acc_loop :: "(real \<Rightarrow> real) \<Rightarrow> ('b \<Rightarrow> real) \<Rightarrow> 'b list \<Rightarrow> real \<Rightarrow> real" where
  "sum_acc_loop rnd batch_accuracy [] sum_acc = sum_acc"
| "sum_acc_loop rnd batch_accuracy (batch # bar) sum_acc =
     sum_acc_loop rnd batch_accuracy bar (rnd (sum_acc + batch_accuracy batch))"

definition test_set_accuracy ::
  "(real \<Rightarrow> real) \<Rightarrow> ('b \<Rightarrow> real) \<Rightarrow> 'b list \<Rightarrow> py_error + real" where
  "test_set_accuracy rnd batch_accuracy test_batches =
     (let sum_acc = sum_acc_loop rnd batch_accuracy test_batches 0 in
      if length test_batches = 0 then Inl ZeroDivisionError
      else Inr (rnd (sum_acc / real (length test_batches))))"

text \<open>
  FashionMNIST tutorial (\<^verbatim>\<open>tutorials/pytorch/tut1_basics/walkthrough_code_only.py\<close>),
  lines 98-108:
  \<^verbatim>\<open>
  predictions, labels = [], []
  for data, label in test_dataloader:
      predictions += poptorch_model_inf(data).data.max(dim=1).indices
      labels += label
  ...
  print(f"Eval accuracy: {100 * accuracy_score(labels, predictions):.2f}%")
  \<close>
  \<open>predict\<close> is \<open>poptorch_model_inf(data).data.max(dim=1).indices\<close>, the list of
  predicted classes of a batch. \<open>accuracy_score\<close> is the library's classification
  score with its default arguments: the fraction of positions at which the two lists
  agree. The model gives no score (\<open>None\<close>) to lists of different lengths and to empty
  lists, where there is no such fraction.
\<close>

fun eval_loop ::
  "('d \<Rightarrow> 'c list) \<Rightarrow> ('d \<times> 'c list) list \<Rightarrow> 'c list \<times> 'c list \<Rightarrow> 'c list \<times> 'c list" where
  "eval_loop predict [] (predictions, labels) = (predictions, labels)"
| "eval_loop predict ((data, label) # rest) (predictions, labels) =
     eval_loop predict rest (predictions @ predict data, labels @ label)"

definition accuracy_score :: "(real \<Rightarrow> real) \<Rightarrow> 'c list \<Rightarrow> 'c list \<Rightarrow> real option" where
  "accuracy_score rnd y_true y_pred =
     (if length y_true \<noteq> length y_pred \<or> y_true = [] then None
      else Some (rnd (real (length (filter (\<lambda>(t, p). t = p) (zip y_true y_pred)))
                      / real (length y_true))))"

definition eval_accuracy ::
  "(real \<Rightarrow> real) \<Rightarrow> ('d \<Rightarrow> 'c list) \<Rightarrow> ('d \<times> 'c list) list \<Rightarrow> real option" where
  "eval_accuracy rnd predict test_dataloader =
     (case eval_loop predict test_dataloader ([], []) of
        (predictions, labels) \<Rightarrow>
          (case accuracy_score rnd labels predictions of
             None \<Rightarrow> None
           | Some score \<Rightarrow> Some (rnd (100 * score))))"

text \<open>
  A rounding to try the model with: rounding down to a multiple of \<open>1/1024\<close>.
\<close>

definition round_down_1024 :: "real \<Rightarrow> real" where
  "round_down_1024 x = real_of_int \<lfloor>x * 1024\<rfloor> / 1024"

section \<open>TensorFlow 2 MNIST script: the version check\<close>

text \<open>
  \<^verbatim>\<open>simple_applications/tensorflow2/mnist/mnist_code_only.py\<close>, lines 7-8:
  \<^verbatim>\<open>
  if tf.__version__[0] != '2':
      raise ImportError("TensorFlow 2 is required for this example")
  \<close>
  The argument is the string \<open>tf.__version__\<close>. Indexing an empty string raises
  IndexError; otherwise the first character is compared with \<open>'2'\<close>, and the script
  goes on (\<open>Inr ()\<close>) when it is equal.
\<close>

definition version_check :: "string \<Rightarrow> py_error + unit" where
  "version_check version =
     (case version of
        [] \<Rightarrow> Inl IndexError
      | c # _ \<Rightarrow> if c \<noteq> CHR ''2'' then Inl ImportError else Inr ())"

text \<open>
  Lines 2-8 as a whole, for an installed TensorFlow with the version string
  \<open>tf_version\<close>: line 5, \<^verbatim>\<open>from tensorflow.python import ipu\<close>, raises ImportError
  when the installed TensorFlow has no \<open>ipu\<close> module; then comes the version check.
\<close>

record tensorflow =
  tf_version :: string
  tf_has_ipu :: bool

definition mnist_tf2_startup :: "tensorflow \<Rightarrow> py_error + unit" where
  "mnist_tf2_startup tf =
     (if \<not> tf_has_ipu tf then Inl ImportError else version_check (tf_version tf))"

text \<open>
  The specification speaks of the major version of the installed framework. In a version
  string such as \<open>2.4.1\<close> that is the component before the first dot; this definition
  follows the specification's words, not the script.
\<close>

definition spec_major_version :: "string \<Rightarrow> string" where
  "spec_major_version version = takeWhile (\<lambda>c. c \<noteq> CHR ''.'') version"

section \<open>Imports of the scripts\<close>

text \<open>
  The seven scripts, and for each the modules its import statements name, in the order
  of the statements: \<open>import a.b as c\<close> names \<open>a.b\<close>, \<open>from a.b import c\<close> names \<open>a.b\<close>.
\<close>

datatype script =
  mnist_tf2
  | mnist_poptorch
  | keras_demo
  | tut1_basics
  | tut2_efficient_data_loading
  | tf1_example_1
  | tf1_example_1_gpu

fun imported_modules :: "script \<Rightarrow> string list" where
  "imported_modules mnist_tf2 = [''tensorflow'', ''tensorflow'', ''tensorflow.python'']"
| "imported_modules mnist_poptorch =
     [''tqdm'', ''torch'', ''torch.nn'', ''torchvision'', ''poptorch'', ''torch.optim'',
      ''argparse'', ''metrics'']"
| "imported_modules keras_demo = [''tensorflow.keras'', ''numpy'', ''tensorflow.python'']"
| "imported_modules tut1_basics =
     [''torch'', ''poptorch'', ''torchvision'', ''torch.nn'', ''matplotlib.pyplot'', ''tqdm'',
      ''sklearn.metrics'']"
| "imported_modules tut2_efficient_data_loading =
     [''__main__'', ''time'', ''sys'', ''poptorch'', ''torch'', ''torch.nn'']"
| "imported_modules tf1_example_1 = [''tensorflow.compat.v1'', ''tensorflow.python'', ''time'']"
| "imported_modules tf1_example_1_gpu = [''tensorflow.compat.v1'', ''time'']"

text \<open>
  What a script may use beside itself, in the specification's words, are the external
  framework libraries. A module is external when its top-level package is part of the
  Python interpreter (\<open>__main__\<close> is the running script itself) or is one of the
  installed frameworks the scripts are written against.
\<close>

definition interpreter_modules :: "string list" where
  "interpreter_modules = [''__main__'', ''argparse'', ''sys'', ''time'']"

definition framework_packages :: "string list" where
  "framework_packages =
     [''tensorflow'', ''numpy'', ''torch'', ''torchvision'', ''poptorch'', ''tqdm'',
      ''matplotlib'', ''sklearn'']"

definition top_level_package :: "string \<Rightarrow> string" where
  "top_level_package modname = takeWhile (\<lambda>c. c \<noteq> CHR ''.'') modname"

definition external_module :: "string \<Rightarrow> bool" where
  "external_module modname \<longleftrightarrow>
     top_level_package modname \<in> set (interpreter_modules @ framework_packages)"

section \<open>Efficient data loading tutorial: throughput\<close>

text \<open>
  \<^verbatim>\<open>tutorials/pytorch/tut2_efficient_data_loading/walkthrough_code_only.py\<close>,
  lines 85-91:
  \<^verbatim>\<open>
  class catchtime:
      def __enter__(self):
          self.seconds = time.time()
          return self

      def __exit__(self, type, value, traceback):
          self.seconds = time.time() - self.seconds
  \<close>
  The clock is an input: \<open>now\<close> is what \<open>time.time()\<close> returns at that call. Times and
  throughputs are floats, modelled as reals.
\<close>

record catchtime =
  seconds :: real

definition catchtime_enter :: "real \<Rightarrow> catchtime" where
  "catchtime_enter now = \<lparr>seconds = now\<rparr>"

definition catchtime_exit :: "real \<Rightarrow> catchtime \<Rightarrow> catchtime" where
  "catchtime_exit now self = self\<lparr>seconds := now - seconds self\<rparr>"

text \<open>
  \<^verbatim>\<open>with catchtime() as t: <loop>\<close>, where the clock reads \<open>t_enter\<close> when the block is
  entered and \<open>t_exit\<close> when the loop has ended. The loops of lines 96-97 and 161-162
  only bind the batches.
\<close>

definition timed_loop :: "real \<Rightarrow> real \<Rightarrow> catchtime" where
  "timed_loop t_enter t_exit = catchtime_exit t_exit (catchtime_enter t_enter)"

text \<open>
  Lines 100 and 164:
  \<^verbatim>\<open>items_per_second = (steps * device_iterations * batch_size * replicas) / t.seconds\<close>.
  The product is an integer; dividing by a zero float raises.
\<close>

definition items_per_second :: "int \<Rightarrow> int \<Rightarrow> int \<Rightarrow> int \<Rightarrow> catchtime \<Rightarrow> py_error + real" where
  "items_per_second steps n_device_iterations n_batch_size n_replicas t =
     (if seconds t = 0 then Inl ZeroDivisionError
      else Inr (real_of_int (steps * n_device_iterations * n_batch_size * n_replicas)
                / seconds t))"

text \<open>
  Lines 26-28 (\<open>device_iterations = 50\<close>, \<open>batch_size = 16\<close>, \<open>replicas = 1\<close>) and the
  first measurement, lines 94-101, with \<open>steps = len(training_data)\<close>.
\<close>

definition tut2_device_iterations :: int where
  "tut2_device_iterations = 50"

definition tut2_batch_size :: int where
  "tut2_batch_size = 16"

definition tut2_replicas :: int where
  "tut2_replicas = 1"

definition dataloader_throughput :: "int \<Rightarrow> real \<Rightarrow> real \<Rightarrow> py_error + real" where
  "dataloader_throughput steps t_enter t_exit =
     items_per_second steps tut2_device_iterations tut2_batch_size tut2_replicas
       (timed_loop t_enter t_exit)"

text \<open>
  The first measurement of \<open>validate_model_performance\<close>, lines 159-165, with the
  function's own parameters.
\<close>

definition validate_dataloader_throughput ::
  "int \<Rightarrow> int \<Rightarrow> int \<Rightarrow> int \<Rightarrow> real \<Rightarrow> real \<Rightarrow> py_error + real" where
  "validate_dataloader_throughput steps n_device_iterations n_batch_size n_replicas
       t_enter t_exit =
     items_per_second steps n_device_iterations n_batch_size n_replicas
       (timed_loop t_enter t_exit)"

section \<open>Efficient data loading tutorial: the life of a loader\<close>

text \<open>
  What the tutorial does with its asynchronous loaders, as a sequence of events in the
  order of execution. Every \<open>poptorch.DataLoader(...)\<close> call creates a loader with a
  fresh number; \<open>Iterate\<close> is a \<open>for\<close> loop over the loader run to its end,
  \<open>FetchFirst\<close> is \<open>next(iter(training_data))\<close>, which takes one batch, and
  \<open>Terminate\<close> is \<open>training_data.terminate()\<close>.

  The state also counts the calls of \<open>time.time()\<close>: the clock is a function \<open>clock\<close>
  from the number of the call to the time it returns. A run ends with the events so far
  and, when a statement raised, the exception (\<open>Some\<close>): nothing in the script catches
  one, so the statements after it are not executed. The exceptions modelled are those of
  the script's own statements (a division by zero seconds, \<open>next\<close> on a loader without a
  batch); calls into the frameworks are taken to return.
\<close>

datatype loader_event = Create nat | Iterate nat | FetchFirst nat | Terminate nat

record runtime =
  next_loader :: nat
  clock_reads :: nat
  events :: "loader_event list"

type_synonym run = "py_error option \<times> runtime"

definition start :: runtime where
  "start = \<lparr>next_loader = 0, clock_reads = 0, events = []\<rparr>"

definition andthen :: "run \<Rightarrow> (runtime \<Rightarrow> run) \<Rightarrow> run" where
  "andthen r rest = (case r of (None, w) \<Rightarrow> rest w | (Some e, w) \<Rightarrow> (Some e, w))"

definition DataLoader :: "runtime \<Rightarrow> nat \<times> runtime" where
  "DataLoader w =
     (next_loader w,
      w\<lparr>next_loader := Suc (next_loader w), events := events w @ [Create (next_loader w)]\<rparr>)"

definition emit :: "loader_event \<Rightarrow> runtime \<Rightarrow> runtime" where
  "emit e w = w\<lparr>events := events w @ [e]\<rparr>"

definition time_time :: "(nat \<Rightarrow> real) \<Rightarrow> runtime \<Rightarrow> real \<times> runtime" where
  "time_time clock w = (clock (clock_reads w), w\<lparr>clock_reads := Suc (clock_reads w)\<rparr>)"

text \<open>
  \<^verbatim>\<open>with catchtime() as t: <loop>\<close> in a run: the clock is read, the loop runs, the
  clock is read again.
\<close>

definition timed :: "(nat \<Rightarrow> real) \<Rightarrow> (runtime \<Rightarrow> runtime) \<Rightarrow> runtime \<Rightarrow> catchtime \<times> runtime" where
  "timed clock loop w =
     (case time_time clock w of
        (t_enter, w1) \<Rightarrow>
          (case time_time clock (loop w1) of
             (t_exit, w2) \<Rightarrow> (timed_loop t_enter t_exit, w2)))"

text \<open>
  The throughput computed after a timed loop (lines 100, 138, 164 and 179) is only
  printed; what the run keeps of it is whether the division raised.
\<close>

definition report_throughput :: "int \<Rightarrow> int \<Rightarrow> int \<Rightarrow> int \<Rightarrow> catchtime \<Rightarrow> runtime \<Rightarrow> run" where
  "report_throughput steps n_device_iterations n_batch_size n_replicas t w =
     (case items_per_second steps n_device_iterations n_batch_size n_replicas t of
        Inl e \<Rightarrow> (Some e, w)
      | Inr _ \<Rightarrow> (None, w))"

text \<open>
  Lines 145-183; \<open>loader_len\<close> gives \<open>len(training_data)\<close> for each loader. With
  synthetic data the second timed loop runs the training model on the last batch and
  does not touch the loader; otherwise it iterates the loader again. \<open>terminate()\<close>
  is the last statement, after both divisions.
\<close>

definition validate_model_performance ::
  "(nat \<Rightarrow> real) \<Rightarrow> (nat \<Rightarrow> int) \<Rightarrow> int \<Rightarrow> int \<Rightarrow> int \<Rightarrow> bool \<Rightarrow> runtime \<Rightarrow> run" where
  "validate_model_performance clock loader_len n_device_iterations n_batch_size n_replicas
       synthetic_data w =
     (case DataLoader w of
        (training_data, w1) \<Rightarrow>
          let steps = loader_len training_data in
          (case timed clock (emit (Iterate training_data)) w1 of
             (t, w2) \<Rightarrow>
               andthen (report_throughput steps n_device_iterations n_batch_size n_replicas t w2)
                 (\<lambda>w3.
                    case timed clock
                        (if synthetic_data then (\<lambda>w. w) else emit (Iterate training_data)) w3 of
                      (t, w4) \<Rightarrow>
                        andthen
                          (report_throughput steps n_device_iterations n_batch_size n_replicas
                             t w4)
                          (\<lambda>w5. (None, emit (Terminate training_data) w5)))))"

text \<open>
  The first loader, lines 74-103: created, iterated inside the timer, the throughput
  computed at line 100, and \<open>terminate()\<close> at line 103.
\<close>

definition first_loader :: "(nat \<Rightarrow> real) \<Rightarrow> (nat \<Rightarrow> int) \<Rightarrow> runtime \<Rightarrow> run" where
  "first_loader clock loader_len w =
     (case DataLoader w of
        (training_data, w1) \<Rightarrow>
          let steps = loader_len training_data in
          (case timed clock (emit (Iterate training_data)) w1 of
             (t, w2) \<Rightarrow>
               andthen
                 (report_throughput steps tut2_device_iterations tut2_batch_size tut2_replicas
                    t w2)
                 (\<lambda>w3. (None, emit (Terminate training_data) w3))))"

text \<open>
  The second loader, lines 115-142: created, read once with \<open>next(iter(...))\<close>, which
  raises StopIteration on a loader without a batch; the timed loop of lines 134-136 runs
  the training model and does not touch the loader; the throughput is computed at
  line 138, and \<open>terminate()\<close> is line 142.
\<close>

definition second_loader :: "(nat \<Rightarrow> real) \<Rightarrow> (nat \<Rightarrow> int) \<Rightarrow> runtime \<Rightarrow> run" where
  "second_loader clock loader_len w =
     (case DataLoader w of
        (training_data, w1) \<Rightarrow>
          let steps = loader_len training_data in
          if steps \<le> 0 then (Some StopIteration, w1)
          else
            let w2 = emit (FetchFirst training_data) w1 in
            (case timed clock (\<lambda>w. w) w2 of
               (t, w3) \<Rightarrow>
                 andthen
                   (report_throughput steps tut2_device_iterations tut2_batch_size tut2_replicas
                      t w3)
                   (\<lambda>w4. (None, emit (Terminate training_data) w4))))"

text \<open>
  The script from line 74 on: the two loaders and the four calls of lines 186-200
  (\<open>batch_size=16\<close>, \<open>device_iterations=50\<close>, \<open>replicas\<close> 1, 1, 4, 4,
  \<open>synthetic_data\<close> True, False, True, False).
\<close>

definition tutorial_body :: "(nat \<Rightarrow> real) \<Rightarrow> (nat \<Rightarrow> int) \<Rightarrow> runtime \<Rightarrow> run" where
  "tutorial_body clock loader_len w =
     andthen
       (andthen
          (andthen
             (andthen
                (andthen (first_loader clock loader_len w) (second_loader clock loader_len))
                (validate_model_performance clock loader_len 50 16 1 True))
             (validate_model_performance clock loader_len 50 16 1 False))
          (validate_model_performance clock loader_len 50 16 4 True))
       (validate_model_performance clock loader_len 50 16 4 False)"

text \<open>
  Lines 11-17: run as a script (not interactively) the file prints a notice and exits
  before it creates a loader.
\<close>

definition tutorial :: "(nat \<Rightarrow> real) \<Rightarrow> (nat \<Rightarrow> int) \<Rightarrow> bool \<Rightarrow> run" where
  "tutorial clock loader_len interactive =
     (if \<not> interactive then (None, start) else tutorial_body clock loader_len start)"

definition created :: "loader_event list \<Rightarrow> nat list" where
  "created es = concat (map (\<lambda>e. case e of Create l \<Rightarrow> [l] | _ \<Rightarrow> []) es)"

definition before_terminate :: "nat \<Rightarrow> loader_event list \<Rightarrow> loader_event list" where
  "before_terminate l es = takeWhile (\<lambda>e. e \<noteq> Terminate l) es"

definition after_terminate :: "nat \<Rightarrow> loader_event list \<Rightarrow> loader_event list" where
  "after_terminate l es = drop 1 (dropWhile (\<lambda>e. e \<noteq> Terminate l) es)"

text \<open>
  Clocks and loader lengths to run the model with: a clock that advances by one second
  from call to call, a clock that always returns the same time, and loaders of twelve
  steps.
\<close>

definition ticking_clock :: "nat \<Rightarrow> real" where
  "ticking_clock k = real k"

definition stopped_clock :: "nat \<Rightarrow> real" where
  "stopped_clock k = 0"

definition twelve_steps :: "nat \<Rightarrow> int" where
  "twelve_steps l = 12"

section \<open>Properties of the Keras length adjustment\<close>

lemma make_divisible_eq:
  "make_divisible number divisor =
     (if divisor = 0 then Inl ZeroDivisionError else Inr (number - number mod divisor))"
  by (simp add: make_divisible_def py_mod_def)

lemmas keras_consts = keras_batch_size_def replication_num_replicas_def pipelining_num_ipus_def
  pipelining_num_replicas_def gradient_accumulation_steps_per_replica_def
  total_gradient_accumulation_steps_def

lemma steps_per_execution_eq:
  "steps_per_execution num_replicas steps_divisor data_len =
     (if keras_batch_size * num_replicas = 0 \<or> steps_divisor = 0 then Inl ZeroDivisionError
      else Inr (data_len div (keras_batch_size * num_replicas)
                - data_len div (keras_batch_size * num_replicas) mod steps_divisor))"
  by (simp add: steps_per_execution_def py_floordiv_def make_divisible_eq)

lemma adjust_data_len_eq:
  "adjust_data_len num_replicas steps_divisor data_len =
     (case steps_per_execution num_replicas steps_divisor data_len of
        Inl e \<Rightarrow> Inl e
      | Inr steps \<Rightarrow>
          if steps * keras_batch_size = 0 then Inl ZeroDivisionError
          else Inr (steps, data_len - data_len mod (steps * keras_batch_size)))"
  by (simp add: adjust_data_len_def make_divisible_eq split: sum.splits)

lemma replication_steps_eq:
  "replication_steps n = Inr (n div 128 - n div 128 mod 2)"
  by (simp add: replication_steps_def steps_per_execution_eq keras_consts)

lemma pipelining_steps_eq:
  "pipelining_steps n = Inr (n div 64 - n div 64 mod 8)"
  by (simp add: pipelining_steps_def steps_per_execution_eq keras_consts)

lemma replication_adjust_eq:
  "replication_adjust n =
    (if n div 128 - n div 128 mod 2 = 0 then Inl ZeroDivisionError
     else Inr (n div 128 - n div 128 mod 2, n - n mod ((n div 128 - n div 128 mod 2) * 64)))"
  by (simp add: replication_adjust_def adjust_data_len_eq steps_per_execution_eq keras_consts)

lemma pipelining_adjust_eq:
  "pipelining_adjust n =
    (if n div 64 - n div 64 mod 8 = 0 then Inl ZeroDivisionError
     else Inr (n div 64 - n div 64 mod 8, n - n mod ((n div 64 - n div 64 mod 8) * 64)))"
  by (simp add: pipelining_adjust_def adjust_data_len_eq steps_per_execution_eq keras_consts)

lemma replication_len_exact:
  fixes n :: int
  assumes "256 \<le> n" and "\<not> (384 \<le> n \<and> n < 512)"
  shows "n - n mod ((n div 128 - n div 128 mod 2) * 64) = (n div 128 - n div 128 mod 2) * 128"
proof -
  define q where "q = n div 128"
  define r where "r = n mod 128"
  define s where "s = q - q mod 2"
  define t where "t = n - s * 128"
  have n_eq: "n = 128 * q + r"
    unfolding q_def r_def by simp
  have r0: "0 \<le> r" and r1: "r < 128"
    unfolding r_def by simp_all
  have p0: "0 \<le> q mod 2" and p1: "q mod 2 < 2"
    by simp_all
  have q2: "2 \<le> q"
    using n_eq r1 assms(1) by linarith
  have s_even: "s mod 2 = 0"
    unfolding s_def by (simp add: minus_mod_eq_mult_div)
  have s_low: "1 \<le> s"
    unfolding s_def using q2 p1 by linarith
  have s2: "2 \<le> s"
  proof (rule ccontr)
    assume "\<not> 2 \<le> s"
    then have "s = 1" using s_low by linarith
    then show False using s_even by simp
  qed
  have t_eq: "t = 128 * (q mod 2) + r"
    unfolding t_def s_def using n_eq by (simp add: algebra_simps)
  have t0: "0 \<le> t"
    using t_eq r0 p0 by linarith
  have t2: "t < s * 64"
  proof (cases "s = 2")
    case True
    have "q = 2"
    proof (rule ccontr)
      assume "q \<noteq> 2"
      then have "q = 3" using True q2 p1 p0 unfolding s_def by linarith
      then show False using n_eq r0 r1 assms(2) by linarith
    qed
    then have "t = r" using t_eq by simp
    then show ?thesis using True r1 by simp
  next
    case False
    have "s \<noteq> 3"
    proof
      assume "s = 3"
      then show False using s_even by simp
    qed
    then have "4 \<le> s" using False s2 by linarith
    moreover have "t < 256" using t_eq r1 p1 by linarith
    ultimately show ?thesis by linarith
  qed
  have "n = t + 2 * (s * 64)"
    unfolding t_def by simp
  then have "n mod (s * 64) = (t + 2 * (s * 64)) mod (s * 64)"
    by simp
  also have "\<dots> = t mod (s * 64)"
    by (rule mod_mult_self1)
  also have "\<dots> = t"
    using t0 t2 by simp
  finally have "n - n mod (s * 64) = s * 128"
    unfolding t_def by simp
  then show ?thesis
    unfolding s_def q_def .
qed


lemma pipelining_len_multiple:
  fixes n :: int
  assumes "512 \<le> n"
  shows "0 < n div 64 - n div 64 mod 8"
    and "(n div 64 - n div 64 mod 8) * 64 dvd n - n mod ((n div 64 - n div 64 mod 8) * 64)"
proof -
  define q where "q = n div 64"
  have "n = 64 * q + n mod 64"
    unfolding q_def by simp
  moreover have "n mod 64 < 64"
    by simp
  ultimately have "8 \<le> q"
    using assms by linarith
  moreover have "q mod 8 < 8"
    by simp
  ultimately show "0 < n div 64 - n div 64 mod 8"
    unfolding q_def by linarith
  show "(n div 64 - n div 64 mod 8) * 64 dvd n - n mod ((n div 64 - n div 64 mod 8) * 64)"
    by (rule dvd_minus_mod)
qed

lemma replication_steps_pos:
  fixes n :: int
  assumes "256 \<le> n"
  shows "0 < n div 128 - n div 128 mod 2"
proof -
  define q where "q = n div 128"
  have "n = 128 * q + n mod 128"
    unfolding q_def by simp
  moreover have "n mod 128 < 128"
    by simp
  ultimately have "2 \<le> q"
    using assms by linarith
  moreover have "q mod 2 < 2"
    by simp
  ultimately show ?thesis
    unfolding q_def by linarith
qed


text \<open>
  Claim C3. For a non-negative number and a positive divisor, \<open>make_divisible\<close> returns
  \<open>number - number % divisor\<close>; that value is a multiple of the divisor, is at most the
  number, and no multiple of the divisor that is at most the number is larger: the
  number is rounded down to a multiple of the divisor.
\<close>

theorem make_divisible_rounds_down:
  assumes "0 \<le> number" and "0 < divisor"
  shows "make_divisible number divisor = Inr (number - number mod divisor)
       \<and> divisor dvd (number - number mod divisor)
       \<and> 0 \<le> number - number mod divisor
       \<and> number - number mod divisor \<le> number
       \<and> (\<forall>m. divisor dvd m \<and> m \<le> number \<longrightarrow> m \<le> number - number mod divisor)"
proof -
  have ret: "make_divisible number divisor = Inr (number - number mod divisor)"
    using assms(2) by (simp add: make_divisible_eq)
  have mult: "divisor dvd (number - number mod divisor)"
    by (rule dvd_minus_mod)
  have rem: "0 \<le> number mod divisor"
    using assms(2) by simp
  have low: "0 \<le> number - number mod divisor"
  proof -
    have "number mod divisor \<le> number"
      using assms by (simp add: zmod_le_nonneg_dividend)
    then show ?thesis by simp
  qed
  have largest: "m \<le> number - number mod divisor" if m: "divisor dvd m" "m \<le> number" for m
  proof -
    have "m div divisor \<le> number div divisor"
      using m(2) assms(2) by (simp add: zdiv_mono1)
    then have "divisor * (m div divisor) \<le> divisor * (number div divisor)"
      using assms(2) by (simp add: mult_left_mono)
    moreover have "divisor * (m div divisor) = m"
      using m(1) by simp
    moreover have "divisor * (number div divisor) = number - number mod divisor"
      by (simp add: minus_mod_eq_mult_div)
    ultimately show ?thesis by simp
  qed
  from ret mult low rem largest show ?thesis by simp
qed

theorem make_divisible_rounds_down_witness:
  "(0::int) \<le> 10000 \<and> (0::int) < 4992
   \<and> make_divisible 10000 4992 = Inr 9984
   \<and> (4992::int) dvd 9984
   \<and> \<not> (9985 \<le> (10000::int) - 10000 mod 4992)"
proof -
  have h1: "(0::int) \<le> 10000" and h2: "(0::int) < 4992" by simp_all
  show ?thesis
    using make_divisible_rounds_down [OF h1 h2] by simp
qed

text \<open>
  Claim C2, as stated, fails in the replication section: a dataset of 384 samples gives
  \<open>384 // 128 = 3\<close> steps, rounded down to 2, and is then truncated to a multiple of
  \<open>2 * 64 = 128\<close>, which leaves all 384 samples; 384 is not a multiple of
  batch size times steps-per-execution times replica count, \<open>64 * 2 * 2 = 256\<close>.
\<close>

theorem replication_len_not_multiple:
  "replication_adjust 384 = Inr (2, 384)
   \<and> \<not> keras_batch_size * 2 * replication_num_replicas dvd (384::int)"
  by (simp add: replication_adjust_eq keras_consts)

text \<open>
  Claim C2, amended. In the replication section, for every initial dataset length of at
  least 256 samples that is not in the range 384..511, and in the pipelining section for
  every initial length of at least 512 samples, the adjustment completes with a positive
  steps-per-execution value, and the adjusted length is an exact multiple of batch size
  times steps-per-execution times replica count.
\<close>

theorem adjusted_len_multiple:
  fixes n :: int
  shows "(256 \<le> n \<and> \<not> (384 \<le> n \<and> n < 512) \<longrightarrow>
           (\<exists>spe m. replication_steps n = Inr spe \<and> replication_adjust n = Inr (spe, m)
              \<and> 0 < spe \<and> keras_batch_size * spe * replication_num_replicas dvd m))
       \<and> (512 \<le> n \<longrightarrow>
           (\<exists>spe m. pipelining_steps n = Inr spe \<and> pipelining_adjust n = Inr (spe, m)
              \<and> 0 < spe \<and> keras_batch_size * spe * pipelining_num_replicas dvd m))"
proof (intro conjI impI)
  assume a: "256 \<le> n \<and> \<not> (384 \<le> n \<and> n < 512)"
  define spe where "spe = n div 128 - n div 128 mod 2"
  have pos: "0 < spe"
    unfolding spe_def using a replication_steps_pos [of n] by blast
  have len: "n - n mod (spe * 64) = spe * 128"
    unfolding spe_def using a replication_len_exact [of n] by blast
  have "replication_adjust n = Inr (spe, spe * 128)"
    using pos len by (simp add: replication_adjust_eq spe_def [symmetric])
  moreover have "replication_steps n = Inr spe"
    by (simp add: replication_steps_eq spe_def)
  moreover have "keras_batch_size * spe * replication_num_replicas dvd spe * 128"
    by (simp add: keras_consts)
  ultimately show "\<exists>spe m. replication_steps n = Inr spe \<and> replication_adjust n = Inr (spe, m)
      \<and> 0 < spe \<and> keras_batch_size * spe * replication_num_replicas dvd m"
    using pos by blast
next
  assume a: "512 \<le> n"
  define spe where "spe = n div 64 - n div 64 mod 8"
  have pos: "0 < spe"
    unfolding spe_def using a by (rule pipelining_len_multiple(1))
  have "spe * 64 dvd n - n mod (spe * 64)"
    by (rule dvd_minus_mod)
  then have dvd: "keras_batch_size * spe * pipelining_num_replicas dvd n - n mod (spe * 64)"
    by (simp add: keras_consts mult.commute)
  have "pipelining_adjust n = Inr (spe, n - n mod (spe * 64))"
    using pos by (simp add: pipelining_adjust_eq spe_def [symmetric])
  moreover have "pipelining_steps n = Inr spe"
    by (simp add: pipelining_steps_eq spe_def)
  ultimately show "\<exists>spe m. pipelining_steps n = Inr spe \<and> pipelining_adjust n = Inr (spe, m)
      \<and> 0 < spe \<and> keras_batch_size * spe * pipelining_num_replicas dvd m"
    using pos dvd by blast
qed

theorem adjusted_len_multiple_witness:
  "replication_adjust 60000 = Inr (468, 59904)
   \<and> keras_batch_size * 468 * replication_num_replicas dvd (59904::int)
   \<and> pipelining_adjust 10000 = Inr (152, 9728)
   \<and> keras_batch_size * 152 * pipelining_num_replicas dvd (9728::int)"
proof -
  have h1: "(256::int) \<le> 60000 \<and> \<not> ((384::int) \<le> 60000 \<and> (60000::int) < 512)"
    by simp
  have h2: "(512::int) \<le> 10000"
    by simp
  have r: "replication_steps 60000 = Inr 468" and p: "pipelining_steps 10000 = Inr 152"
    by (simp_all add: replication_steps_eq pipelining_steps_eq)
  from adjusted_len_multiple [of 60000] h1 r
  have "replication_adjust 60000 = Inr (468, 59904)
     \<and> keras_batch_size * 468 * replication_num_replicas dvd (59904::int)"
    by (simp add: replication_adjust_eq keras_consts)
  moreover from adjusted_len_multiple [of 10000] h2 p
  have "pipelining_adjust 10000 = Inr (152, 9728)
     \<and> keras_batch_size * 152 * pipelining_num_replicas dvd (9728::int)"
    by (simp add: pipelining_adjust_eq keras_consts)
  ultimately show ?thesis by simp
qed

text \<open>
  Claim C10. \<open>make_divisible\<close> raises ZeroDivisionError when the divisor is zero and
  returns otherwise. In the replication and the pipelining section the steps-per-execution
  value, and with it the divisor (that value times the batch size) of the last call, is
  zero for every dataset of fewer than batch size times replica count samples, and the
  adjustment raises ZeroDivisionError there; whenever the computed steps-per-execution
  value is positive, the adjustment returns the truncated length and raises nothing.
\<close>

theorem length_adjustment_zero_division:
  fixes number divisor n spe :: int
  shows "(divisor = 0 \<longrightarrow> make_divisible number divisor = Inl ZeroDivisionError)
       \<and> (divisor \<noteq> 0 \<longrightarrow> make_divisible number divisor = Inr (number - number mod divisor))
       \<and> (0 \<le> n \<and> n < keras_batch_size * replication_num_replicas \<longrightarrow>
            replication_steps n = Inr 0 \<and> replication_adjust n = Inl ZeroDivisionError)
       \<and> (0 \<le> n \<and> n < keras_batch_size * pipelining_num_replicas \<longrightarrow>
            pipelining_steps n = Inr 0 \<and> pipelining_adjust n = Inl ZeroDivisionError)
       \<and> (replication_steps n = Inr spe \<and> 0 < spe \<longrightarrow>
            replication_adjust n = Inr (spe, n - n mod (spe * keras_batch_size)))
       \<and> (pipelining_steps n = Inr spe \<and> 0 < spe \<longrightarrow>
            pipelining_adjust n = Inr (spe, n - n mod (spe * keras_batch_size)))"
proof (intro conjI impI)
  assume "divisor = 0"
  then show "make_divisible number divisor = Inl ZeroDivisionError"
    by (simp add: make_divisible_eq)
next
  assume "divisor \<noteq> 0"
  then show "make_divisible number divisor = Inr (number - number mod divisor)"
    by (simp add: make_divisible_eq)
next
  assume "0 \<le> n \<and> n < keras_batch_size * replication_num_replicas"
  then have "n div 128 = 0"
    by (simp add: keras_consts)
  then show "replication_steps n = Inr 0" and "replication_adjust n = Inl ZeroDivisionError"
    by (simp_all add: replication_steps_eq replication_adjust_eq)
next
  assume "0 \<le> n \<and> n < keras_batch_size * pipelining_num_replicas"
  then have "n div 64 = 0"
    by (simp add: keras_consts)
  then show "pipelining_steps n = Inr 0" and "pipelining_adjust n = Inl ZeroDivisionError"
    by (simp_all add: pipelining_steps_eq pipelining_adjust_eq)
next
  assume "replication_steps n = Inr spe \<and> 0 < spe"
  then show "replication_adjust n = Inr (spe, n - n mod (spe * keras_batch_size))"
    by (simp add: replication_adjust_def replication_steps_def adjust_data_len_eq keras_batch_size_def)
next
  assume "pipelining_steps n = Inr spe \<and> 0 < spe"
  then show "pipelining_adjust n = Inr (spe, n - n mod (spe * keras_batch_size))"
    by (simp add: pipelining_adjust_def pipelining_steps_def adjust_data_len_eq keras_batch_size_def)
qed

theorem length_adjustment_zero_division_witness:
  "make_divisible 7 0 = Inl ZeroDivisionError
   \<and> make_divisible 7 2 = Inr 6
   \<and> replication_steps 100 = Inr 0 \<and> replication_adjust 100 = Inl ZeroDivisionError
   \<and> pipelining_steps 50 = Inr 0 \<and> pipelining_adjust 50 = Inl ZeroDivisionError
   \<and> replication_adjust 60000 = Inr (468, 59904)
   \<and> pipelining_adjust 10000 = Inr (152, 9728)"
proof -
  have r: "replication_steps 60000 = Inr 468 \<and> (0::int) < 468"
    and p: "pipelining_steps 10000 = Inr 152 \<and> (0::int) < 152"
    by (simp_all add: replication_steps_eq pipelining_steps_eq)
  have k: "(0::int) \<le> 100 \<and> 100 < keras_batch_size * replication_num_replicas"
    and l: "(0::int) \<le> 50 \<and> 50 < keras_batch_size * pipelining_num_replicas"
    by (simp_all add: keras_consts)
  from length_adjustment_zero_division [of 0 7 100 0]
    length_adjustment_zero_division [of 2 7 50 0]
    length_adjustment_zero_division [of 2 7 60000 468]
    length_adjustment_zero_division [of 2 7 10000 152]
    r p k l
  show ?thesis
    by (simp add: keras_batch_size_def)
qed

section \<open>Properties of the PopTorch MNIST script and of the reported accuracies\<close>

lemma mnist_main_eq:
  "mnist_main flags =
     \<lparr>training_loader =
        \<lparr>dl_options = \<lparr>opt_device_iterations = 50, opt_output_mode = OutputDefault\<rparr>,
         dl_batch_size = (case flag_batch_size flags of None \<Rightarrow> 8 | Some v \<Rightarrow> v),
         dl_shuffle = True, dl_drop_last = True\<rparr>,
      test_loader =
        \<lparr>dl_options = \<lparr>opt_device_iterations = 1, opt_output_mode = OutputDefault\<rparr>,
         dl_batch_size = (case flag_test_batch_size flags of None \<Rightarrow> 80 | Some v \<Rightarrow> v),
         dl_shuffle = True, dl_drop_last = True\<rparr>,
      training_opts = \<lparr>opt_device_iterations = 50, opt_output_mode = OutputAll\<rparr>,
      sgd_lr = (case flag_lr flags of None \<Rightarrow> 5 / 100 | Some v \<Rightarrow> v),
      nr_epochs = (case flag_epochs flags of None \<Rightarrow> 10 | Some v \<Rightarrow> v)\<rparr>"
  by (simp add: mnist_main_def mnist_setup_def mnist_hyperparameters_def parse_args_def
      Options_def deviceIterations_def outputMode_def)

text \<open>
  Claim C1. The four flags \<open>--batch-size\<close>, \<open>--test-batch-size\<close>, \<open>--epochs\<close> and
  \<open>--lr\<close> reach the data loaders, the epoch loop and the optimizer
  (\<open>mnist_main_eq\<close>), but the value of \<open>--device-iterations\<close> does not: line 32
  overwrites it. Run with \<open>--device-iterations 10\<close>, the script passes 50 device
  iterations to the training options and to the training data loader.
\<close>

theorem device_iterations_flag_overwritten:
  "opt_device_iterations
     (training_opts (mnist_main (no_flags\<lparr>flag_device_iterations := Some 10\<rparr>))) = 50
   \<and> opt_device_iterations
     (dl_options (training_loader (mnist_main (no_flags\<lparr>flag_device_iterations := Some 10\<rparr>)))) = 50"
  by (simp add: mnist_main_eq)

text \<open>
  Claim C9. For every wrapped model, input and labels, \<open>forward\<close> without labels returns
  the model's output on the input and computes no loss, and \<open>forward\<close> with labels
  returns the pair of the model's output and the cross-entropy loss of that output
  against the labels.
\<close>

theorem forward_returns:
  "forward (TrainingModelWithLoss cross_entropy m) x None = Output (m x)
   \<and> forward (TrainingModelWithLoss cross_entropy m) x (Some l)
       = OutputAndLoss (m x) (cross_entropy (m x) l)"
  by (simp add: forward_def TrainingModelWithLoss_def Let_def)

lemma sum_acc_loop_bounds:
  assumes mono: "\<And>x y. x \<le> y \<Longrightarrow> rnd x \<le> rnd y"
    and exact: "\<And>k. k \<le> K \<Longrightarrow> rnd (real k) = real k"
    and range: "\<forall>b \<in> set bs. 0 \<le> acc b \<and> acc b \<le> 100"
    and low: "0 \<le> s"
    and high: "s \<le> 100 * real j"
    and bound: "100 * (j + length bs) \<le> K"
  shows "0 \<le> sum_acc_loop rnd acc bs s \<and> sum_acc_loop rnd acc bs s \<le> 100 * real (j + length bs)"
  using range low high bound
proof (induction bs arbitrary: s j)
  case Nil
  then show ?case by simp
next
  case (Cons b bs)
  have b: "0 \<le> acc b" "acc b \<le> 100"
    using Cons.prems(1) by simp_all
  have "rnd (real 0) \<le> rnd (s + acc b)"
    using b(1) Cons.prems(2) by (intro mono) simp
  then have low': "0 \<le> rnd (s + acc b)"
    using exact [of 0] by simp
  have "s + acc b \<le> real (100 * Suc j)"
    using b(2) Cons.prems(3) by simp
  then have "rnd (s + acc b) \<le> rnd (real (100 * Suc j))"
    by (rule mono)
  moreover have "rnd (real (100 * Suc j)) = real (100 * Suc j)"
    using Cons.prems(4) by (intro exact) simp
  ultimately have high': "rnd (s + acc b) \<le> 100 * real (Suc j)"
    by simp
  have "0 \<le> sum_acc_loop rnd acc bs (rnd (s + acc b))
      \<and> sum_acc_loop rnd acc bs (rnd (s + acc b)) \<le> 100 * real (Suc j + length bs)"
    using Cons.prems(1) Cons.prems(4) by (intro Cons.IH low' high') simp_all
  then show ?case by simp
qed

lemma eval_loop_eq:
  "eval_loop predict dl (ps, ls)
     = (ps @ concat (map (\<lambda>(d, l). predict d) dl), ls @ concat (map snd dl))"
  by (induction dl arbitrary: ps ls) auto

lemma accuracy_score_range:
  assumes mono: "\<And>x y. x \<le> y \<Longrightarrow> rnd x \<le> rnd y"
    and r0: "rnd 0 = 0" and r1: "rnd 1 = 1"
    and some: "accuracy_score rnd y_true y_pred = Some a"
  shows "0 \<le> a \<and> a \<le> 1"
proof -
  define k where "k = length (filter (\<lambda>(t, p). t = p) (zip y_true y_pred))"
  have len: "length y_true = length y_pred" and ne: "y_true \<noteq> []"
    and a: "a = rnd (real k / real (length y_true))"
    using some by (auto simp: accuracy_score_def k_def split: if_splits)
  have "k \<le> length (zip y_true y_pred)"
    unfolding k_def by (rule length_filter_le)
  then have "k \<le> length y_true"
    using len by simp
  moreover have "0 < length y_true"
    using ne by simp
  ultimately have "0 \<le> real k / real (length y_true)" and "real k / real (length y_true) \<le> 1"
    by simp_all
  then have "rnd 0 \<le> a" and "a \<le> rnd 1"
    unfolding a by (auto intro: mono)
  then show ?thesis
    using r0 r1 by simp
qed

text \<open>
  Claim C6. With a rounding that is monotone and leaves the integers up to 100 times the
  number of test batches unchanged (as rounding to the nearest float does, and as the
  identity of exact arithmetic does): for every non-empty test loader whose per-batch
  accuracies all lie in [0, 100], the PopTorch MNIST script's division returns, and the
  printed test-set accuracy lies in [0, 100]; and whenever the FashionMNIST tutorial's
  \<open>100 * accuracy_score(labels, predictions)\<close> has a value, it lies in [0, 100].
\<close>

theorem reported_accuracy_in_range:
  assumes mono: "\<forall>x y. x \<le> y \<longrightarrow> rnd x \<le> rnd y"
    and exact: "\<forall>k \<le> 100 * length test_batches. rnd (real k) = real k"
    and nonempty: "test_batches \<noteq> []"
    and range: "\<forall>b \<in> set test_batches. 0 \<le> batch_accuracy b \<and> batch_accuracy b \<le> 100"
  shows "(\<exists>a. test_set_accuracy rnd batch_accuracy test_batches = Inr a \<and> 0 \<le> a \<and> a \<le> 100)
       \<and> (\<forall>a. eval_accuracy rnd predict test_dataloader = Some a \<longrightarrow> 0 \<le> a \<and> a \<le> 100)"
proof
  define n where "n = length test_batches"
  define s where "s = sum_acc_loop rnd batch_accuracy test_batches 0"
  have n_pos: "0 < n"
    unfolding n_def using nonempty by simp
  have m: "rnd x \<le> rnd y" if "x \<le> y" for x y
    using mono that by blast
  have e: "rnd (real k) = real k" if "k \<le> 100 * n" for k
    using exact that unfolding n_def by blast
  have r0: "rnd 0 = 0"
    using e [of 0] by simp
  have r1: "rnd 1 = 1"
    using e [of 1] n_pos by simp
  have r100: "rnd 100 = 100"
    using e [of 100] n_pos by simp
  have "0 \<le> s \<and> s \<le> 100 * real (0 + n)"
    unfolding s_def n_def
    by (rule sum_acc_loop_bounds [where K = "100 * n"])
      (use m e range in \<open>simp_all add: n_def\<close>)
  then have "0 \<le> s / real n" and "s / real n \<le> 100"
    using n_pos by (simp_all add: divide_le_eq)
  then have "rnd 0 \<le> rnd (s / real n)" and "rnd (s / real n) \<le> rnd 100"
    by (auto intro: m)
  then have "0 \<le> rnd (s / real n) \<and> rnd (s / real n) \<le> 100"
    using r0 r100 by simp
  moreover have "test_set_accuracy rnd batch_accuracy test_batches = Inr (rnd (s / real n))"
    using nonempty by (simp add: test_set_accuracy_def s_def n_def)
  ultimately show "\<exists>a. test_set_accuracy rnd batch_accuracy test_batches = Inr a \<and> 0 \<le> a \<and> a \<le> 100"
    by blast
  show "\<forall>a. eval_accuracy rnd predict test_dataloader = Some a \<longrightarrow> 0 \<le> a \<and> a \<le> 100"
  proof (intro allI impI)
    fix a
    assume some: "eval_accuracy rnd predict test_dataloader = Some a"
    obtain ps ls where loop: "eval_loop predict test_dataloader ([], []) = (ps, ls)"
      by (cases "eval_loop predict test_dataloader ([], [])") simp
    obtain score where score: "accuracy_score rnd ls ps = Some score"
      and a: "a = rnd (100 * score)"
      using some loop by (cases "accuracy_score rnd ls ps") (simp_all add: eval_accuracy_def)
    have "0 \<le> score \<and> score \<le> 1"
      using m r0 r1 score by (rule accuracy_score_range)
    then have "0 \<le> 100 * score" and "100 * score \<le> 100"
      by simp_all
    then have "rnd 0 \<le> a" and "a \<le> rnd 100"
      unfolding a by (auto intro: m)
    then show "0 \<le> a \<and> a \<le> 100"
      using r0 r100 by simp
  qed
qed


lemma round_down_1024_mono: "x \<le> y \<Longrightarrow> round_down_1024 x \<le> round_down_1024 y"
  unfolding round_down_1024_def
  by (intro divide_right_mono floor_mono mult_right_mono iffD2 [OF of_int_le_iff]) simp_all

lemma round_down_1024_exact: "round_down_1024 (real k) = real k"
proof -
  have "real k * 1024 = real_of_int (int k * 1024)"
    by simp
  then have "\<lfloor>real k * 1024\<rfloor> = int k * 1024"
    by (simp only: floor_of_int)
  then show ?thesis
    by (simp add: round_down_1024_def)
qed

theorem reported_accuracy_in_range_witness:
  "(\<exists>a. test_set_accuracy round_down_1024 (\<lambda>b. b) [50, 100] = Inr a \<and> 0 \<le> a \<and> a \<le> 100)
   \<and> test_set_accuracy round_down_1024 (\<lambda>b. b) [50, 100] = Inr 75
   \<and> eval_accuracy round_down_1024 (\<lambda>d. d) [([1, 2 :: nat], [1, 3]), ([4], [4])]
       = Some (8525 / 128)
   \<and> (0 :: real) \<le> 8525 / 128 \<and> (8525 / 128 :: real) \<le> 100"
proof -
  have mono: "\<forall>x y. x \<le> y \<longrightarrow> round_down_1024 x \<le> round_down_1024 y"
    by (simp add: round_down_1024_mono)
  have exact: "\<forall>k \<le> 100 * length [50, 100 :: real]. round_down_1024 (real k) = real k"
    by (simp add: round_down_1024_exact)
  have nonempty: "[50, 100 :: real] \<noteq> []"
    by simp
  have range: "\<forall>b \<in> set [50, 100 :: real]. 0 \<le> (\<lambda>b. b) b \<and> (\<lambda>b. b) b \<le> 100"
    by simp
  have v1: "test_set_accuracy round_down_1024 (\<lambda>b. b) [50, 100] = Inr 75"
    by (simp add: test_set_accuracy_def round_down_1024_def)
  have v2: "eval_accuracy round_down_1024 (\<lambda>d. d) [([1, 2 :: nat], [1, 3]), ([4], [4])]
       = Some (8525 / 128)"
    by (simp add: eval_accuracy_def accuracy_score_def round_down_1024_def)
  from reported_accuracy_in_range [OF mono exact nonempty range,
      of "\<lambda>d. d" "[([1, 2 :: nat], [1, 3]), ([4], [4])]"] v1 v2
  show ?thesis
    by simp
qed

section \<open>Properties of the version check\<close>

text \<open>
  Claim C4. The script means to require major version 2 (its message is "TensorFlow 2 is
  required for this example") but compares only the first character of the version
  string: with an installed TensorFlow of version \<open>20.1.0\<close> (that has the \<open>ipu\<close>
  module) the major version is 20, not 2, and lines 2-8 raise nothing.
\<close>

theorem version_check_major_20:
  "mnist_tf2_startup \<lparr>tf_version = ''20.1.0'', tf_has_ipu = True\<rparr> = Inr ()
   \<and> version_check ''20.1.0'' = Inr ()
   \<and> spec_major_version ''20.1.0'' = ''20''"
  by (simp add: mnist_tf2_startup_def version_check_def spec_major_version_def)

section \<open>Properties of the imports\<close>

lemmas module_lists = external_module_def top_level_package_def interpreter_modules_def
  framework_packages_def

text \<open>
  Claim C5, as stated, fails: the PopTorch MNIST script imports \<open>accuracy\<close> from the
  module \<open>metrics\<close> (line 145), which is neither part of the interpreter nor one of the
  external frameworks.
\<close>

theorem mnist_poptorch_imports_metrics:
  "''metrics'' \<in> set (imported_modules mnist_poptorch) \<and> \<not> external_module ''metrics''"
  by (simp add: module_lists)

text \<open>
  Claim C5, amended. Every script other than the PopTorch MNIST script imports only
  modules of the interpreter and of the external frameworks; the PopTorch MNIST script
  imports such modules and exactly one other module, \<open>metrics\<close>.
\<close>

theorem imports_external_except_metrics:
  "(\<forall>s. s \<noteq> mnist_poptorch \<longrightarrow> (\<forall>m \<in> set (imported_modules s). external_module m))
   \<and> filter (\<lambda>m. \<not> external_module m) (imported_modules mnist_poptorch) = [''metrics'']"
proof (intro conjI allI impI)
  fix s
  assume "s \<noteq> mnist_poptorch"
  then show "\<forall>m \<in> set (imported_modules s). external_module m"
    by (cases s) (simp_all add: module_lists)
next
  show "filter (\<lambda>m. \<not> external_module m) (imported_modules mnist_poptorch) = [''metrics'']"
    by (simp add: module_lists)
qed

theorem imports_external_except_metrics_witness:
  "tut1_basics \<noteq> mnist_poptorch
   \<and> ''sklearn.metrics'' \<in> set (imported_modules tut1_basics)
   \<and> external_module ''sklearn.metrics''"
proof -
  have h: "tut1_basics \<noteq> mnist_poptorch"
    and m: "''sklearn.metrics'' \<in> set (imported_modules tut1_basics)"
    by simp_all
  from imports_external_except_metrics h m have "external_module ''sklearn.metrics''"
    by blast
  with h m show ?thesis
    by simp
qed

section \<open>Properties of the efficient data loading tutorial\<close>

text \<open>
  Claim C7. When the clock readings at the start and at the end of the timed iteration
  loop differ, the timer holds their difference, and the data loader throughput, at the
  top level and in \<open>validate_model_performance\<close>, is the number of loader steps times
  device iterations times batch size times replication factor, divided by these seconds.
\<close>

theorem throughput_formula:
  assumes "t_exit \<noteq> t_enter"
  shows "seconds (timed_loop t_enter t_exit) = t_exit - t_enter
       \<and> dataloader_throughput steps t_enter t_exit
           = Inr (real_of_int (steps * tut2_device_iterations * tut2_batch_size * tut2_replicas)
                  / (t_exit - t_enter))
       \<and> validate_dataloader_throughput steps n_device_iterations n_batch_size n_replicas
             t_enter t_exit
           = Inr (real_of_int (steps * n_device_iterations * n_batch_size * n_replicas)
                  / (t_exit - t_enter))"
  using assms
  by (simp add: dataloader_throughput_def validate_dataloader_throughput_def
      items_per_second_def timed_loop_def catchtime_exit_def catchtime_enter_def)

theorem throughput_formula_witness:
  "(205 / 2 :: real) \<noteq> 100
   \<and> dataloader_throughput 12 100 (205 / 2) = Inr 3840
   \<and> validate_dataloader_throughput 12 50 16 4 100 (205 / 2) = Inr 15360"
proof -
  have h: "(205 / 2 :: real) \<noteq> 100"
    by simp
  from throughput_formula [OF h, of 12 50 16 4] show ?thesis
    by (simp add: tut2_device_iterations_def tut2_batch_size_def tut2_replicas_def)
qed

lemma report_throughput_eq:
  "report_throughput steps d b r (timed_loop t_enter t_exit) w =
     (if t_exit = t_enter then (Some ZeroDivisionError, w) else (None, w))"
  by (simp add: report_throughput_def items_per_second_def timed_loop_def catchtime_exit_def
      catchtime_enter_def)

lemma timed_emit:
  "timed clock (emit e) w =
     (timed_loop (clock (clock_reads w)) (clock (Suc (clock_reads w))),
      w\<lparr>clock_reads := Suc (Suc (clock_reads w)), events := events w @ [e]\<rparr>)"
  by (simp add: timed_def time_time_def emit_def)

lemma timed_skip:
  "timed clock (\<lambda>w. w) w =
     (timed_loop (clock (clock_reads w)) (clock (Suc (clock_reads w))),
      w\<lparr>clock_reads := Suc (Suc (clock_reads w))\<rparr>)"
  by (simp add: timed_def time_time_def)

lemma first_loader_eq:
  "first_loader clock loader_len \<lparr>next_loader = n, clock_reads = k, events = es\<rparr> =
     (if clock (Suc k) = clock k
      then (Some ZeroDivisionError,
            \<lparr>next_loader = Suc n, clock_reads = Suc (Suc k),
             events = es @ [Create n, Iterate n]\<rparr>)
      else (None,
            \<lparr>next_loader = Suc n, clock_reads = Suc (Suc k),
             events = es @ [Create n, Iterate n, Terminate n]\<rparr>))"
  by (simp add: first_loader_def DataLoader_def timed_emit report_throughput_eq andthen_def
      emit_def Let_def)

lemma second_loader_eq:
  "second_loader clock loader_len \<lparr>next_loader = n, clock_reads = k, events = es\<rparr> =
     (if loader_len n \<le> 0
      then (Some StopIteration,
            \<lparr>next_loader = Suc n, clock_reads = k, events = es @ [Create n]\<rparr>)
      else if clock (Suc k) = clock k
      then (Some ZeroDivisionError,
            \<lparr>next_loader = Suc n, clock_reads = Suc (Suc k),
             events = es @ [Create n, FetchFirst n]\<rparr>)
      else (None,
            \<lparr>next_loader = Suc n, clock_reads = Suc (Suc k),
             events = es @ [Create n, FetchFirst n, Terminate n]\<rparr>))"
  by (simp add: second_loader_def DataLoader_def timed_skip report_throughput_eq andthen_def
      emit_def Let_def)

lemma validate_model_performance_eq:
  "validate_model_performance clock loader_len d b r synthetic_data
       \<lparr>next_loader = n, clock_reads = k, events = es\<rparr> =
     (if clock (Suc k) = clock k
      then (Some ZeroDivisionError,
            \<lparr>next_loader = Suc n, clock_reads = Suc (Suc k),
             events = es @ [Create n, Iterate n]\<rparr>)
      else if clock (Suc (Suc (Suc k))) = clock (Suc (Suc k))
      then (Some ZeroDivisionError,
            \<lparr>next_loader = Suc n, clock_reads = Suc (Suc (Suc (Suc k))),
             events = es @ [Create n, Iterate n] @ (if synthetic_data then [] else [Iterate n])\<rparr>)
      else (None,
            \<lparr>next_loader = Suc n, clock_reads = Suc (Suc (Suc (Suc k))),
             events = es @ [Create n, Iterate n] @ (if synthetic_data then [] else [Iterate n])
                      @ [Terminate n]\<rparr>))"
  by (simp add: validate_model_performance_def DataLoader_def timed_emit timed_skip
      report_throughput_eq andthen_def emit_def Let_def)

lemma tutorial_body_outcome:
  "(fst (tutorial_body clock loader_len start), events (snd (tutorial_body clock loader_len start))) =
     (if clock 1 = clock 0 then
        (Some ZeroDivisionError, [Create 0, Iterate 0])
      else if loader_len 1 \<le> 0 then
        (Some StopIteration, [Create 0, Iterate 0, Terminate 0, Create 1])
      else if clock 3 = clock 2 then
        (Some ZeroDivisionError, [Create 0, Iterate 0, Terminate 0, Create 1, FetchFirst 1])
      else if clock 5 = clock 4 \<or> clock 7 = clock 6 then
        (Some ZeroDivisionError,
         [Create 0, Iterate 0, Terminate 0, Create 1, FetchFirst 1, Terminate 1,
          Create 2, Iterate 2])
      else if clock 9 = clock 8 then
        (Some ZeroDivisionError,
         [Create 0, Iterate 0, Terminate 0, Create 1, FetchFirst 1, Terminate 1,
          Create 2, Iterate 2, Terminate 2, Create 3, Iterate 3])
      else if clock 11 = clock 10 then
        (Some ZeroDivisionError,
         [Create 0, Iterate 0, Terminate 0, Create 1, FetchFirst 1, Terminate 1,
          Create 2, Iterate 2, Terminate 2, Create 3, Iterate 3, Iterate 3])
      else if clock 13 = clock 12 \<or> clock 15 = clock 14 then
        (Some ZeroDivisionError,
         [Create 0, Iterate 0, Terminate 0, Create 1, FetchFirst 1, Terminate 1,
          Create 2, Iterate 2, Terminate 2, Create 3, Iterate 3, Iterate 3, Terminate 3,
          Create 4, Iterate 4])
      else if clock 17 = clock 16 then
        (Some ZeroDivisionError,
         [Create 0, Iterate 0, Terminate 0, Create 1, FetchFirst 1, Terminate 1,
          Create 2, Iterate 2, Terminate 2, Create 3, Iterate 3, Iterate 3, Terminate 3,
          Create 4, Iterate 4, Terminate 4, Create 5, Iterate 5])
      else if clock 19 = clock 18 then
        (Some ZeroDivisionError,
         [Create 0, Iterate 0, Terminate 0, Create 1, FetchFirst 1, Terminate 1,
          Create 2, Iterate 2, Terminate 2, Create 3, Iterate 3, Iterate 3, Terminate 3,
          Create 4, Iterate 4, Terminate 4, Create 5, Iterate 5, Iterate 5])
      else
        (None,
         [Create 0, Iterate 0, Terminate 0, Create 1, FetchFirst 1, Terminate 1,
          Create 2, Iterate 2, Terminate 2, Create 3, Iterate 3, Iterate 3, Terminate 3,
          Create 4, Iterate 4, Terminate 4, Create 5, Iterate 5, Iterate 5, Terminate 5]))"
  by (simp add: tutorial_body_def start_def first_loader_eq second_loader_eq
      validate_model_performance_eq andthen_def eval_nat_numeral)


lemmas trace_checks = created_def before_terminate_def after_terminate_def

lemma tutorial_body_traces:
  "events (snd (tutorial_body clock loader_len start)) \<in> set
     [[Create 0, Iterate 0],
      [Create 0, Iterate 0, Terminate 0, Create 1],
      [Create 0, Iterate 0, Terminate 0, Create 1, FetchFirst 1],
      [Create 0, Iterate 0, Terminate 0, Create 1, FetchFirst 1, Terminate 1,
       Create 2, Iterate 2],
      [Create 0, Iterate 0, Terminate 0, Create 1, FetchFirst 1, Terminate 1,
       Create 2, Iterate 2, Terminate 2, Create 3, Iterate 3],
      [Create 0, Iterate 0, Terminate 0, Create 1, FetchFirst 1, Terminate 1,
       Create 2, Iterate 2, Terminate 2, Create 3, Iterate 3, Iterate 3],
      [Create 0, Iterate 0, Terminate 0, Create 1, FetchFirst 1, Terminate 1,
       Create 2, Iterate 2, Terminate 2, Create 3, Iterate 3, Iterate 3,
       Terminate 3, Create 4, Iterate 4],
      [Create 0, Iterate 0, Terminate 0, Create 1, FetchFirst 1, Terminate 1,
       Create 2, Iterate 2, Terminate 2, Create 3, Iterate 3, Iterate 3,
       Terminate 3, Create 4, Iterate 4, Terminate 4, Create 5, Iterate 5],
      [Create 0, Iterate 0, Terminate 0, Create 1, FetchFirst 1, Terminate 1,
       Create 2, Iterate 2, Terminate 2, Create 3, Iterate 3, Iterate 3,
       Terminate 3, Create 4, Iterate 4, Terminate 4, Create 5, Iterate 5,
       Iterate 5],
      [Create 0, Iterate 0, Terminate 0, Create 1, FetchFirst 1, Terminate 1,
       Create 2, Iterate 2, Terminate 2, Create 3, Iterate 3, Iterate 3,
       Terminate 3, Create 4, Iterate 4, Terminate 4, Create 5, Iterate 5,
       Iterate 5, Terminate 5]]"
proof -
  define r where "r = tutorial_body clock loader_len start"
  have "events (snd r) = snd (fst r, events (snd r))"
    by simp
  then show ?thesis
    unfolding r_def by (simp only: tutorial_body_outcome) simp
qed

lemma tutorial_body_completed:
  assumes "fst (tutorial_body clock loader_len start) = None"
  shows "events (snd (tutorial_body clock loader_len start)) =
     [Create 0, Iterate 0, Terminate 0, Create 1, FetchFirst 1, Terminate 1,
       Create 2, Iterate 2, Terminate 2, Create 3, Iterate 3, Iterate 3,
       Terminate 3, Create 4, Iterate 4, Terminate 4, Create 5, Iterate 5,
       Iterate 5, Terminate 5]"
  using tutorial_body_outcome [of clock loader_len] assms
  by (simp split: if_splits)

lemma tutorial_body_completes:
  assumes ticks: "\<forall>k < 10. clock (2 * k + 1) \<noteq> clock (2 * k)" and len: "0 < loader_len 1"
  shows "fst (tutorial_body clock loader_len start) = None"
proof -
  have "clock 1 \<noteq> clock 0" "clock 3 \<noteq> clock 2" "clock 5 \<noteq> clock 4" "clock 7 \<noteq> clock 6"
    "clock 9 \<noteq> clock 8" "clock 11 \<noteq> clock 10" "clock 13 \<noteq> clock 12"
    "clock 15 \<noteq> clock 14" "clock 17 \<noteq> clock 16" "clock 19 \<noteq> clock 18"
    using ticks [rule_format, of 0] ticks [rule_format, of 1] ticks [rule_format, of 2]
      ticks [rule_format, of 3] ticks [rule_format, of 4] ticks [rule_format, of 5]
      ticks [rule_format, of 6] ticks [rule_format, of 7] ticks [rule_format, of 8]
      ticks [rule_format, of 9]
    by simp_all
  then show ?thesis
    using tutorial_body_outcome [of clock loader_len] len by simp
qed

lemma known_traces_safe:
  assumes "es \<in> set
     [[Create 0, Iterate 0],
      [Create 0, Iterate 0, Terminate 0, Create 1],
      [Create 0, Iterate 0, Terminate 0, Create 1, FetchFirst 1],
      [Create 0, Iterate 0, Terminate 0, Create 1, FetchFirst 1, Terminate 1,
       Create 2, Iterate 2],
      [Create 0, Iterate 0, Terminate 0, Create 1, FetchFirst 1, Terminate 1,
       Create 2, Iterate 2, Terminate 2, Create 3, Iterate 3],
      [Create 0, Iterate 0, Terminate 0, Create 1, FetchFirst 1, Terminate 1,
       Create 2, Iterate 2, Terminate 2, Create 3, Iterate 3, Iterate 3],
      [Create 0, Iterate 0, Terminate 0, Create 1, FetchFirst 1, Terminate 1,
       Create 2, Iterate 2, Terminate 2, Create 3, Iterate 3, Iterate 3,
       Terminate 3, Create 4, Iterate 4],
      [Create 0, Iterate 0, Terminate 0, Create 1, FetchFirst 1, Terminate 1,
       Create 2, Iterate 2, Terminate 2, Create 3, Iterate 3, Iterate 3,
       Terminate 3, Create 4, Iterate 4, Terminate 4, Create 5, Iterate 5],
      [Create 0, Iterate 0, Terminate 0, Create 1, FetchFirst 1, Terminate 1,
       Create 2, Iterate 2, Terminate 2, Create 3, Iterate 3, Iterate 3,
       Terminate 3, Create 4, Iterate 4, Terminate 4, Create 5, Iterate 5,
       Iterate 5],
      [Create 0, Iterate 0, Terminate 0, Create 1, FetchFirst 1, Terminate 1,
       Create 2, Iterate 2, Terminate 2, Create 3, Iterate 3, Iterate 3,
       Terminate 3, Create 4, Iterate 4, Terminate 4, Create 5, Iterate 5,
       Iterate 5, Terminate 5]]"
  shows "\<forall>l \<in> set (created es).
         count_list es (Terminate l) \<le> 1
         \<and> Iterate l \<notin> set (after_terminate l es)
         \<and> FetchFirst l \<notin> set (after_terminate l es)
         \<and> Terminate l \<notin> set (after_terminate l es)"
proof -
  from assms consider
    "es = [Create 0, Iterate 0]"
    | "es = [Create 0, Iterate 0, Terminate 0, Create 1]"
    | "es = [Create 0, Iterate 0, Terminate 0, Create 1, FetchFirst 1]"
    | "es = [Create 0, Iterate 0, Terminate 0, Create 1, FetchFirst 1,
         Terminate 1, Create 2, Iterate 2]"
    | "es = [Create 0, Iterate 0, Terminate 0, Create 1, FetchFirst 1,
         Terminate 1, Create 2, Iterate 2, Terminate 2, Create 3, Iterate 3]"
    | "es = [Create 0, Iterate 0, Terminate 0, Create 1, FetchFirst 1,
         Terminate 1, Create 2, Iterate 2, Terminate 2, Create 3, Iterate 3,
         Iterate 3]"
    | "es = [Create 0, Iterate 0, Terminate 0, Create 1, FetchFirst 1,
         Terminate 1, Create 2, Iterate 2, Terminate 2, Create 3, Iterate 3,
         Iterate 3, Terminate 3, Create 4, Iterate 4]"
    | "es = [Create 0, Iterate 0, Terminate 0, Create 1, FetchFirst 1,
         Terminate 1, Create 2, Iterate 2, Terminate 2, Create 3, Iterate 3,
         Iterate 3, Terminate 3, Create 4, Iterate 4, Terminate 4, Create 5,
         Iterate 5]"
    | "es = [Create 0, Iterate 0, Terminate 0, Create 1, FetchFirst 1,
         Terminate 1, Create 2, Iterate 2, Terminate 2, Create 3, Iterate 3,
         Iterate 3, Terminate 3, Create 4, Iterate 4, Terminate 4, Create 5,
         Iterate 5, Iterate 5]"
    | "es = [Create 0, Iterate 0, Terminate 0, Create 1, FetchFirst 1,
         Terminate 1, Create 2, Iterate 2, Terminate 2, Create 3, Iterate 3,
         Iterate 3, Terminate 3, Create 4, Iterate 4, Terminate 4, Create 5,
         Iterate 5, Iterate 5, Terminate 5]"
    by auto
  then show ?thesis
    by cases (simp_all add: trace_checks)
qed

lemma full_trace_terminated:
  assumes "es =
     [Create 0, Iterate 0, Terminate 0, Create 1, FetchFirst 1, Terminate 1,
       Create 2, Iterate 2, Terminate 2, Create 3, Iterate 3, Iterate 3,
       Terminate 3, Create 4, Iterate 4, Terminate 4, Create 5, Iterate 5,
       Iterate 5, Terminate 5]"
  shows "\<forall>l \<in> set (created es).
              count_list es (Terminate l) = 1
              \<and> Create l \<in> set (before_terminate l es)
              \<and> (if l = 1
                  then FetchFirst l \<in> set (before_terminate l es) \<and> Iterate l \<notin> set es
                  else Iterate l \<in> set (before_terminate l es) \<and> FetchFirst l \<notin> set es)"
  unfolding assms by (simp add: trace_checks)


lemma ticking_run:
  "fst (tutorial ticking_clock twelve_steps True) = None"
  unfolding tutorial_def
  by (simp add: tutorial_body_completes ticking_clock_def twelve_steps_def)

lemma ticking_events:
  "events (snd (tutorial ticking_clock twelve_steps True)) =
     [Create 0, Iterate 0, Terminate 0, Create 1, FetchFirst 1, Terminate 1,
      Create 2, Iterate 2, Terminate 2, Create 3, Iterate 3, Iterate 3, Terminate 3,
      Create 4, Iterate 4, Terminate 4, Create 5, Iterate 5, Iterate 5, Terminate 5]"
  using ticking_run tutorial_body_completed [of ticking_clock twelve_steps]
  by (simp add: tutorial_def)

lemma stopped_run:
  "fst (tutorial stopped_clock twelve_steps True) = Some ZeroDivisionError"
  "events (snd (tutorial stopped_clock twelve_steps True)) = [Create 0, Iterate 0]"
  using tutorial_body_outcome [of stopped_clock twelve_steps]
  by (simp_all add: tutorial_def stopped_clock_def)

text \<open>
  Claim C8, as stated, fails twice. When the clock returns the same time at both ends of
  the first timed loop, line 100 divides by zero seconds and the script ends with
  ZeroDivisionError before line 103: the first loader has been created and iterated and
  is never terminated. And in a run without an exception the second loader is
  terminated although no iteration over it has finished: the script only takes one batch
  from it with \<open>next(iter(...))\<close>.
\<close>

theorem loader_left_unterminated:
  "fst (tutorial stopped_clock twelve_steps True) = Some ZeroDivisionError
   \<and> events (snd (tutorial stopped_clock twelve_steps True)) = [Create 0, Iterate 0]
   \<and> Terminate 0 \<notin> set (events (snd (tutorial stopped_clock twelve_steps True)))
   \<and> fst (tutorial ticking_clock twelve_steps True) = None
   \<and> Iterate 1 \<notin> set (events (snd (tutorial ticking_clock twelve_steps True)))
   \<and> before_terminate 1 (events (snd (tutorial ticking_clock twelve_steps True)))
       = [Create 0, Iterate 0, Terminate 0, Create 1, FetchFirst 1]"
  by (simp add: stopped_run ticking_run ticking_events before_terminate_def)

text \<open>
  Claim C8, amended. In every run, also one that an exception cuts short, no loader is
  iterated, read or terminated again after \<open>terminate()\<close> has been called on it, and
  \<open>terminate()\<close> is called at most once on each loader. In every run that raises no
  exception, every loader that is created has \<open>terminate()\<close> called exactly once, after
  its creation and after the script's reading from it: one \<open>next(iter(...))\<close> for the
  second loader (loader 1), which is never iterated, and one or two loops run to their end
  for every other loader. A run raises no exception when the second loader has a batch and
  the clock returns different times at the two ends of each of the ten timed loops.
\<close>

theorem loaders_terminated_unless_raised:
  "let r = tutorial clock loader_len interactive;
       es = events (snd r)
   in (\<forall>l \<in> set (created es).
         count_list es (Terminate l) \<le> 1
         \<and> Iterate l \<notin> set (after_terminate l es)
         \<and> FetchFirst l \<notin> set (after_terminate l es)
         \<and> Terminate l \<notin> set (after_terminate l es))
      \<and> (fst r = None \<longrightarrow>
           (\<forall>l \<in> set (created es).
              count_list es (Terminate l) = 1
              \<and> Create l \<in> set (before_terminate l es)
              \<and> (if l = 1
                  then FetchFirst l \<in> set (before_terminate l es) \<and> Iterate l \<notin> set es
                  else Iterate l \<in> set (before_terminate l es) \<and> FetchFirst l \<notin> set es)))
      \<and> ((\<forall>k < 10. clock (2 * k + 1) \<noteq> clock (2 * k)) \<and> 0 < loader_len 1 \<longrightarrow> fst r = None)"
proof (cases interactive)
  case False
  then show ?thesis
    by (simp add: tutorial_def start_def created_def)
next
  case True
  define r where "r = tutorial_body clock loader_len start"
  define es where "es = events (snd r)"
  have safe: "\<forall>l \<in> set (created es).
         count_list es (Terminate l) \<le> 1
         \<and> Iterate l \<notin> set (after_terminate l es)
         \<and> FetchFirst l \<notin> set (after_terminate l es)
         \<and> Terminate l \<notin> set (after_terminate l es)"
    unfolding es_def r_def by (rule known_traces_safe) (rule tutorial_body_traces)
  have terminated: "\<forall>l \<in> set (created es).
              count_list es (Terminate l) = 1
              \<and> Create l \<in> set (before_terminate l es)
              \<and> (if l = 1
                  then FetchFirst l \<in> set (before_terminate l es) \<and> Iterate l \<notin> set es
                  else Iterate l \<in> set (before_terminate l es) \<and> FetchFirst l \<notin> set es)"
    if "fst r = None"
    unfolding es_def r_def
    by (rule full_trace_terminated) (rule tutorial_body_completed, rule that [unfolded r_def])
  have completes: "fst r = None"
    if "(\<forall>k < 10. clock (2 * k + 1) \<noteq> clock (2 * k)) \<and> 0 < loader_len 1"
    unfolding r_def using that by (intro tutorial_body_completes) simp_all
  have "tutorial clock loader_len interactive = r"
    using True by (simp add: tutorial_def r_def)
  then show ?thesis
    unfolding Let_def es_def [symmetric] using safe terminated completes
    by (simp only: es_def [symmetric]) blast
qed

theorem loaders_terminated_unless_raised_witness:
  "fst (tutorial ticking_clock twelve_steps True) = None
   \<and> 1 \<in> set (created (events (snd (tutorial ticking_clock twelve_steps True))))
   \<and> count_list (events (snd (tutorial ticking_clock twelve_steps True))) (Terminate 1) = 1
   \<and> FetchFirst 1
       \<in> set (before_terminate 1 (events (snd (tutorial ticking_clock twelve_steps True))))
   \<and> Iterate 1 \<notin> set (after_terminate 1 (events (snd (tutorial ticking_clock twelve_steps True))))
   \<and> 0 \<in> set (created (events (snd (tutorial ticking_clock twelve_steps True))))
   \<and> Iterate 0
       \<in> set (before_terminate 0 (events (snd (tutorial ticking_clock twelve_steps True))))"
proof -
  have ticks: "(\<forall>k < 10. ticking_clock (2 * k + 1) \<noteq> ticking_clock (2 * k))
       \<and> 0 < twelve_steps 1"
    by (simp add: ticking_clock_def twelve_steps_def)
  have mem: "1 \<in> set (created (events (snd (tutorial ticking_clock twelve_steps True))))"
    "0 \<in> set (created (events (snd (tutorial ticking_clock twelve_steps True))))"
    by (simp_all add: ticking_events created_def)
  have one: "(1::nat) = 1" and zero: "(0::nat) \<noteq> 1"
    by simp_all
  from loaders_terminated_unless_raised [of ticking_clock twelve_steps True, unfolded Let_def]
  have run: "fst (tutorial ticking_clock twelve_steps True) = None"
    using ticks by blast
  from loaders_terminated_unless_raised [of ticking_clock twelve_steps True, unfolded Let_def]
    run mem(1)
  have l1: "count_list (events (snd (tutorial ticking_clock twelve_steps True))) (Terminate 1) = 1
    \<and> FetchFirst 1
       \<in> set (before_terminate 1 (events (snd (tutorial ticking_clock twelve_steps True))))
    \<and> Iterate 1 \<notin> set (after_terminate 1 (events (snd (tutorial ticking_clock twelve_steps True))))"
    by (auto split: if_splits)
  from loaders_terminated_unless_raised [of ticking_clock twelve_steps True, unfolded Let_def]
    run mem(2)
  have l0: "Iterate 0
       \<in> set (before_terminate 0 (events (snd (tutorial ticking_clock twelve_steps True))))"
    by (auto split: if_splits)
  from run mem l1 l0 show ?thesis
    by simp
qed

end
